theory Spec2Isabelle
  imports Main
begin

section \<open>Python values used by proteotyping\_db.py\<close>

text \<open>
  The development follows \<open>src/proteotyping/proteotyping_db.py\<close>; line numbers are
  those of that file. Strings are lists of characters. A character of the model is one of the first 256 code
  points, which covers every separator the program looks for (\<open>gi|\<close>, \<open>ref|\<close>, \<open>taxid>\<close>,
  tabs, newlines, ASCII digits). An exception is a value of \<open>error\<close>; a call that can
  raise returns \<open>error + 'a\<close> with \<open>Inl\<close> for the raised exception.
\<close>

datatype error =
    IndexError
  | ValueError
  | TypeError
  | OverflowError
  | FileNotFoundError
  | UnicodeDecodeError
  | IntegrityError
  | DatabaseError
  | OperationalError string
  | RequestException
  | Exception string

datatype level = DEBUG | INFO | ERROR

text \<open>
  What a generator (or a function that logs) gives off while it runs, in order: a log
  record of the \<open>logging\<close> module or a yielded item.
\<close>

datatype 'a emit = Log level string | Yield 'a

fun yielded :: "'a emit list \<Rightarrow> 'a list" where
  "yielded [] = []"
| "yielded (Log l m # es) = yielded es"
| "yielded (Yield x # es) = x # yielded es"

subsection \<open>str.split, str.startswith, int\<close>

definition isspace :: "char \<Rightarrow> bool" where
  \<comment> \<open>\<open>str.isspace\<close> on the first 256 code points: TAB..CR, FS..US, space, NEL, NBSP.\<close>
  "isspace c =
     (let n = (of_char c :: nat)
      in (9 \<le> n \<and> n \<le> 13) \<or> (28 \<le> n \<and> n \<le> 32) \<or> n = 133 \<or> n = 160)"

definition isdigit :: "char \<Rightarrow> bool" where
  "isdigit c = (let n = (of_char c :: nat) in 48 \<le> n \<and> n \<le> 57)"

fun split_ws :: "string \<Rightarrow> string \<Rightarrow> string list" where
  "split_ws acc [] = (if acc = [] then [] else [rev acc])"
| "split_ws acc (c # cs) =
     (if isspace c then (if acc = [] then split_ws [] cs else rev acc # split_ws [] cs)
      else split_ws (c # acc) cs)"

definition split_whitespace :: "string \<Rightarrow> string list" where
  \<comment> \<open>\<open>s.split()\<close>: the maximal runs of non-whitespace characters.\<close>
  "split_whitespace s = split_ws [] s"

definition startswith :: "string \<Rightarrow> string \<Rightarrow> bool" where
  "startswith s p = (take (length p) s = p)"

function split_at :: "string \<Rightarrow> string \<Rightarrow> string \<Rightarrow> string list" where
  "split_at sep acc [] = [rev acc]"
| "split_at sep acc (c # cs) =
     (if sep \<noteq> [] \<and> startswith (c # cs) sep
      then rev acc # split_at sep [] (drop (length sep) (c # cs))
      else split_at sep (c # acc) cs)"
  by pat_completeness auto
termination
  by (relation "measure (\<lambda>(sep, acc, s). length s)") auto

definition split :: "string \<Rightarrow> string \<Rightarrow> string list" where
  \<comment> \<open>\<open>s.split(sep)\<close> for a non-empty separator: the pieces between the occurrences of
      \<open>sep\<close>, found left to right; always at least one piece.\<close>
  "split s sep = split_at sep [] s"

definition subscript :: "'a list \<Rightarrow> nat \<Rightarrow> error + 'a" where
  \<comment> \<open>\<open>xs[i]\<close> for an index \<open>i \<ge> 0\<close>.\<close>
  "subscript xs i = (if i < length xs then Inr (xs ! i) else Inl IndexError)"

definition strip :: "string \<Rightarrow> string" where
  "strip s = rev (dropWhile isspace (rev (dropWhile isspace s)))"

definition digits_value :: "string \<Rightarrow> int" where
  "digits_value ds = foldl (\<lambda>a c. 10 * a + (int (of_char c) - 48)) 0 ds"

definition unsigned_int :: "string \<Rightarrow> int option" where
  "unsigned_int ds = (if ds \<noteq> [] \<and> list_all isdigit ds then Some (digits_value ds) else None)"

definition py_int :: "string \<Rightarrow> error + int" where
  \<comment> \<open>\<open>int(s)\<close> of Python 3.5 (the interpreter of the script's first line): surrounding
      whitespace is dropped, then an optional sign and one or more decimal digits.\<close>
  "py_int s =
     (case (case strip s of
              c # ds \<Rightarrow> if c = CHR ''-'' then map_option uminus (unsigned_int ds)
                        else if c = CHR ''+'' then unsigned_int ds
                        else unsigned_int (c # ds)
            | [] \<Rightarrow> None) of
        None \<Rightarrow> Inl ValueError
      | Some i \<Rightarrow> Inr i)"

subsection \<open>Text files\<close>

fun lines_from :: "string \<Rightarrow> string \<Rightarrow> string list" where
  "lines_from acc [] = (if acc = [] then [] else [rev acc])"
| "lines_from acc (c # cs) =
     (if c = CHR 0x0A then rev (c # acc) # lines_from [] cs else lines_from (c # acc) cs)"

definition file_lines :: "string \<Rightarrow> string list" where
  \<comment> \<open>The lines a text file object gives, to \<open>for line in f\<close> and to \<open>f.readline()\<close>:
      each line keeps its newline; only the last line may lack one.\<close>
  "file_lines content = lines_from [] content"

definition readline :: "string list \<Rightarrow> string \<times> string list" where
  \<comment> \<open>\<open>f.readline()\<close> on the lines still unread: the empty string at the end of the file.\<close>
  "readline f = (case f of [] \<Rightarrow> ([], []) | l # ls \<Rightarrow> (l, ls))"

section \<open>The lookup store (gi to taxid)\<close>

text \<open>
  The store is an SQLite database with the single table
  \<^verbatim>\<open>gi_taxid(gi INT PRIMARY KEY, taxid INT)\<close>. Its only writer is
  \<open>create_gi_taxid_db\<close>, which binds pairs of Python integers, so a row is a pair of
  integers; the rows are listed in the order of insertion. A connection is modelled by
  what its statements see: the table (\<open>None\<close> when the database has no such table), or
  a file that is not a database at all. Durability (journal, sync, commit) is not
  modelled, and neither are the log records and the timing of \<open>create_gi_taxid_db\<close>,
  which change nothing in the store.

  The \<open>sqlite3\<close> module binds a Python integer as a 64-bit SQLite INTEGER: a value
  outside the signed 64-bit range raises \<open>OverflowError\<close> when it is bound, after the
  statement has been compiled and before it runs. A second row with the gi of a stored
  row violates the primary key and raises \<open>IntegrityError\<close>.
\<close>

type_synonym gi_taxid_table = "(int \<times> int) list"

datatype connection = Database "gi_taxid_table option" | Not_a_database

datatype disk_file = Text_file string | Sqlite_file "gi_taxid_table option"

type_synonym filesystem = "string \<rightharpoonup> disk_file"

definition isfile :: "filesystem \<Rightarrow> string \<Rightarrow> bool" where
  "isfile fs path = (fs path \<noteq> None)"

definition open_text :: "filesystem \<Rightarrow> string \<Rightarrow> error + string list" where
  \<comment> \<open>\<open>open(path)\<close> for reading text, as the lines of the file (the bytes of a database
      are taken not to be text in the encoding of the platform).\<close>
  "open_text fs path =
     (case fs path of
        None \<Rightarrow> Inl FileNotFoundError
      | Some (Text_file content) \<Rightarrow> Inr (file_lines content)
      | Some (Sqlite_file t) \<Rightarrow> Inl UnicodeDecodeError)"

definition sqlite3_connect :: "filesystem \<Rightarrow> string \<Rightarrow> connection" where
  \<comment> \<open>\<open>sqlite3.connect(path)\<close>: a path with no file gives a new, empty database; an
      existing file is opened as it is, and nothing is checked before the first
      statement.\<close>
  "sqlite3_connect fs path =
     (case fs path of
        None \<Rightarrow> Database None
      | Some (Sqlite_file t) \<Rightarrow> Database t
      | Some (Text_file content) \<Rightarrow> if content = [] then Database None else Not_a_database)"

definition int64 :: "int \<Rightarrow> bool" where
  "int64 i = (- (2 ^ 63) \<le> i \<and> i < 2 ^ 63)"

definition create_table_gi_taxid :: "connection \<Rightarrow> error + connection" where
  \<comment> \<open>\<^verbatim>\<open>CREATE TABLE gi_taxid(gi INT PRIMARY KEY, taxid INT)\<close>\<close>
  "create_table_gi_taxid c =
     (case c of
        Not_a_database \<Rightarrow> Inl DatabaseError
      | Database (Some tbl) \<Rightarrow> Inl (OperationalError ''table gi_taxid already exists'')
      | Database None \<Rightarrow> Inr (Database (Some [])))"

definition insert_gi_taxid :: "connection \<Rightarrow> int \<times> int \<Rightarrow> error + connection" where
  \<comment> \<open>\<^verbatim>\<open>INSERT INTO gi_taxid VALUES (?, ?)\<close> with one pair bound.\<close>
  "insert_gi_taxid c p =
     (case c of
        Not_a_database \<Rightarrow> Inl DatabaseError
      | Database None \<Rightarrow> Inl (OperationalError ''no such table: gi_taxid'')
      | Database (Some tbl) \<Rightarrow>
          if \<not> (int64 (fst p) \<and> int64 (snd p)) then Inl OverflowError
          else if fst p \<in> set (map fst tbl) then Inl IntegrityError
          else Inr (Database (Some (tbl @ [p]))))"

fun executemany :: "connection \<Rightarrow> (int \<times> int) list \<Rightarrow> error + connection" where
  "executemany c [] = Inr c"
| "executemany c (p # ps) =
     (case insert_gi_taxid c p of Inl e \<Rightarrow> Inl e | Inr c' \<Rightarrow> executemany c' ps)"

subsection \<open>gi\_taxid\_generator (lines 28--35) and the chunked load (lines 92--114)\<close>

definition gi_taxid_item :: "string \<Rightarrow> error + int \<times> int" where
  \<comment> \<open>The body of the generator's loop for one line: \<open>gi, taxid = line.split()\<close>, then
      \<open>int(gi), int(taxid)\<close>.\<close>
  "gi_taxid_item line =
     (case split_whitespace line of
        [gi, taxid] \<Rightarrow>
          (case py_int gi of
             Inl e \<Rightarrow> Inl e
           | Inr g \<Rightarrow> (case py_int taxid of Inl e \<Rightarrow> Inl e | Inr t \<Rightarrow> Inr (g, t)))
      | _ \<Rightarrow> Inl ValueError)"

definition gi_taxid_generator :: "filesystem \<Rightarrow> string \<Rightarrow> (error + int \<times> int) list" where
  \<comment> \<open>The generator as the outcome of each \<open>next()\<close> in turn: a pair, or the exception
      that ends the generator (nothing after it is ever computed). The file is opened
      at the first \<open>next()\<close>.\<close>
  "gi_taxid_generator fs gi_taxid_dmp =
     (case open_text fs gi_taxid_dmp of
        Inl e \<Rightarrow> [Inl e]
      | Inr ls \<Rightarrow> map gi_taxid_item ls)"

text \<open>
  Modelled from the spec: \<open>grouper\<close> of \<open>proteotyping.utils\<close>, which is imported by the
  script and is not among the sources. Section 4.2 of the specification: the loader
  ``partitions it into fixed-size groups (last group may be short)'' and issues one bulk
  insert per group. The specification gives chunk size 0 no meaning; the model yields no
  group for it.
\<close>

function grouper :: "nat \<Rightarrow> 'a list \<Rightarrow> 'a list list" where
  "grouper n xs = (if n = 0 \<or> xs = [] then [] else take n xs # grouper n (drop n xs))"
  by pat_completeness auto
termination
  by (relation "measure (\<lambda>(n, xs). length xs)") auto

fun pull :: "(error + 'a) list \<Rightarrow> error + 'a list" where
  \<comment> \<open>Taking the items of one group out of the generator: the first exception is raised
      and the group is never handed over.\<close>
  "pull [] = Inr []"
| "pull (Inl e # xs) = Inl e"
| "pull (Inr x # xs) = (case pull xs of Inl e \<Rightarrow> Inl e | Inr ys \<Rightarrow> Inr (x # ys))"

fun insert_chunks :: "connection \<Rightarrow> (error + int \<times> int) list list \<Rightarrow> error + connection" where
  \<comment> \<open>\<open>for pairs in grouper(...): con.executemany("INSERT ...", pairs)\<close>\<close>
  "insert_chunks c [] = Inr c"
| "insert_chunks c (chunk # chunks) =
     (case pull chunk of
        Inl e \<Rightarrow> Inl e
      | Inr pairs \<Rightarrow>
          (case executemany c pairs of Inl e \<Rightarrow> Inl e | Inr c' \<Rightarrow> insert_chunks c' chunks))"

definition create_gi_taxid_db :: "filesystem \<Rightarrow> string \<Rightarrow> string \<Rightarrow> nat \<Rightarrow> error + connection" where
  \<comment> \<open>The two \<^verbatim>\<open>PRAGMA\<close> statements and \<^verbatim>\<open>CREATE TABLE\<close> on the new connection,
      then the loop over the groups; \<open>rows_per_chunk\<close> is a count.\<close>
  "create_gi_taxid_db fs sqlite3db_file gi_taxid_dmp rows_per_chunk =
     (case create_table_gi_taxid (sqlite3_connect fs sqlite3db_file) of
        Inl e \<Rightarrow> Inl e
      | Inr c \<Rightarrow> insert_chunks c (grouper rows_per_chunk (gi_taxid_generator fs gi_taxid_dmp)))"

subsection \<open>Taxdump\_DB\_wrapper (lines 77--125)\<close>

record Taxdump_DB_wrapper =
  sqlite3db_file :: string
  con :: connection

definition Taxdump_DB_wrapper_init ::
  "filesystem \<Rightarrow> string option \<Rightarrow> string option \<Rightarrow> nat \<Rightarrow> error + Taxdump_DB_wrapper" where
  \<comment> \<open>\<open>__init__\<close>; \<open>not gi_taxid_dmp\<close> holds of \<open>None\<close> and of the empty string.\<close>
  "Taxdump_DB_wrapper_init fs db_file gi_taxid_dmp rows_per_chunk =
     (let path = (case db_file of None \<Rightarrow> ''gi_taxid.db'' | Some p \<Rightarrow> p)
      in if isfile fs path then Inr \<lparr>sqlite3db_file = path, con = sqlite3_connect fs path\<rparr>
         else (case gi_taxid_dmp of
                 None \<Rightarrow> Inl (Exception ''Argument gi_taxid_dmp required to create new DB.'')
               | Some dmp \<Rightarrow>
                   if dmp = [] then Inl (Exception ''Argument gi_taxid_dmp required to create new DB.'')
                   else (case create_gi_taxid_db fs path dmp rows_per_chunk of
                           Inl e \<Rightarrow> Inl e
                         | Inr c \<Rightarrow> Inr \<lparr>sqlite3db_file = path, con = c\<rparr>)))"

definition select_taxid :: "connection \<Rightarrow> int \<Rightarrow> error + int list" where
  \<comment> \<open>\<^verbatim>\<open>SELECT taxid FROM gi_taxid WHERE gi = ?\<close>: the taxid of every matching row.\<close>
  "select_taxid c key =
     (case c of
        Not_a_database \<Rightarrow> Inl DatabaseError
      | Database None \<Rightarrow> Inl (OperationalError ''no such table: gi_taxid'')
      | Database (Some tbl) \<Rightarrow>
          if \<not> int64 key then Inl OverflowError
          else Inr (map snd (filter (\<lambda>r. fst r = key) tbl)))"

definition fetchone :: "'a list \<Rightarrow> 'a option" where
  "fetchone rs = (case rs of [] \<Rightarrow> None | r # _ \<Rightarrow> Some r)"

definition first_column :: "'a option \<Rightarrow> error + 'a" where
  \<comment> \<open>\<open>row[0]\<close> on what \<open>fetchone()\<close> returned: subscripting \<open>None\<close> raises TypeError.\<close>
  "first_column r = (case r of None \<Rightarrow> Inl TypeError | Some v \<Rightarrow> Inr v)"

definition getitem :: "Taxdump_DB_wrapper \<Rightarrow> int \<Rightarrow> error + int option" where
  \<comment> \<open>\<open>__getitem__\<close>; the result \<open>None\<close> is Python's \<open>None\<close>.\<close>
  "getitem self key =
     (case select_taxid (con self) key of
        Inl e \<Rightarrow> Inl e
      | Inr rs \<Rightarrow>
          (case first_column (fetchone rs) of
             Inr taxid \<Rightarrow> Inr (Some taxid)
           | Inl TypeError \<Rightarrow> Inr None
           | Inl e \<Rightarrow> Inl e))"

definition select_count :: "connection \<Rightarrow> error + int list" where
  \<comment> \<open>\<^verbatim>\<open>SELECT Count(*) FROM gi_taxid\<close>: one row, the number of rows of the table.\<close>
  "select_count c =
     (case c of
        Not_a_database \<Rightarrow> Inl DatabaseError
      | Database None \<Rightarrow> Inl (OperationalError ''no such table: gi_taxid'')
      | Database (Some tbl) \<Rightarrow> Inr [int (length tbl)])"

definition len :: "Taxdump_DB_wrapper \<Rightarrow> error + int" where
  \<comment> \<open>\<open>__len__\<close>\<close>
  "len self =
     (case select_count (con self) of
        Inl e \<Rightarrow> Inl e
      | Inr rs \<Rightarrow> first_column (fetchone rs))"

section \<open>The identifier resolver with network fallback (lines 38--74)\<close>

text \<open>
  The remote service is a parameter: a function from the accession sent as the \<open>id\<close> of
  the request to what \<open>requests.get\<close> does with it, the body of the response
  (\<open>xml.text\<close>) or the exception it raises. Calls of \<open>logging\<close> are recorded whatever
  the configured level is.
\<close>

type_synonym entrez = "string \<Rightarrow> error + string"

definition response_taxid :: "string \<Rightarrow> error + int" where
  \<comment> \<open>\<open>int(xml.text.split("taxid>")[1].split("<")[0])\<close>\<close>
  "response_taxid text =
     (case subscript (split text ''taxid>'') 1 of
        Inl e \<Rightarrow> Inl e
      | Inr rest \<Rightarrow>
          (case subscript (split rest ''<'') 0 of
             Inl e \<Rightarrow> Inl e
           | Inr digits \<Rightarrow> py_int digits))"

definition efetch_taxid :: "entrez \<Rightarrow> string \<Rightarrow> (string \<times> int) emit list \<times> (error + int option)" where
  \<comment> \<open>What the function logs, and what it returns or raises.\<close>
  "efetch_taxid eutils accno =
     ([Log DEBUG (''Requesting taxid for accno '' @ accno @ '' via Entrez E-utils'')],
      case eutils accno of
        Inl e \<Rightarrow> Inl e
      | Inr text \<Rightarrow>
          (case response_taxid text of
             Inl e \<Rightarrow> Inl e
           | Inr taxid \<Rightarrow> if taxid \<noteq> 0 then Inr (Some taxid) else Inr None))"

definition header_gi :: "string \<Rightarrow> error + int" where
  \<comment> \<open>\<open>int(header.split("gi|")[1].split("|")[0])\<close>\<close>
  "header_gi header =
     (case subscript (split header ''gi|'') 1 of
        Inl e \<Rightarrow> Inl e
      | Inr rest \<Rightarrow>
          (case subscript (split rest ''|'') 0 of
             Inl e \<Rightarrow> Inl e
           | Inr digits \<Rightarrow> py_int digits))"

definition header_accno :: "string \<Rightarrow> error + string" where
  \<comment> \<open>\<open>header.split("ref|")[1].split("|")[0]\<close>\<close>
  "header_accno header =
     (case subscript (split header ''ref|'') 1 of
        Inl e \<Rightarrow> Inl e
      | Inr rest \<Rightarrow> subscript (split rest ''|'') 0)"

definition truthy :: "int option \<Rightarrow> bool" where
  \<comment> \<open>\<open>if taxid:\<close> for a value that is an integer or \<open>None\<close>.\<close>
  "truthy v = (case v of None \<Rightarrow> False | Some i \<Rightarrow> i \<noteq> 0)"

definition resolve :: "Taxdump_DB_wrapper \<Rightarrow> entrez \<Rightarrow> string \<Rightarrow> (string \<times> int) emit list \<times> error option" where
  \<comment> \<open>The body of the inner loop of \<open>create_header_taxid_mappings\<close> for one sequence
      record, given \<open>seqinfo[0]\<close>: what it logs and yields, and the exception that leaves
      it, if any.\<close>
  "resolve gi_taxid eutils seqinfo0 =
     (case subscript (split_whitespace seqinfo0) 0 of
        Inl e \<Rightarrow> ([], Some e)
      | Inr header \<Rightarrow>
     (case header_gi header of
        Inl e \<Rightarrow> ([], Some e)
      | Inr gi \<Rightarrow>
     (case getitem gi_taxid gi of
        Inl e \<Rightarrow> ([], Some e)
      | Inr taxid \<Rightarrow>
     (case (truthy taxid, taxid) of
        (True, Some t) \<Rightarrow> ([Yield (header, t)], None)
      | _ \<Rightarrow>
     (case header_accno header of
        Inl e \<Rightarrow>
          ([Log DEBUG (''Found no taxid mapping for gi: '' @ header @ '' in the taxdump db'')], Some e)
      | Inr accno \<Rightarrow>
     (case efetch_taxid eutils accno of
        (logs, Inl e) \<Rightarrow>
          (Log DEBUG (''Found no taxid mapping for gi: '' @ header @ '' in the taxdump db'') # logs,
           Some e)
      | (logs, Inr taxid') \<Rightarrow>
     (case (truthy taxid', taxid') of
        (True, Some t) \<Rightarrow>
          (Log DEBUG (''Found no taxid mapping for gi: '' @ header @ '' in the taxdump db'') # logs
             @ [Yield (header, t)],
           None)
      | _ \<Rightarrow>
          (Log DEBUG (''Found no taxid mapping for gi: '' @ header @ '' in the taxdump db'') # logs
             @ [Log DEBUG (''Found in taxid for accno: '' @ accno)],
           None))))))))"


section \<open>parse\_gff (lines 278--312)\<close>

type_synonym gff_record = "string \<times> string \<times> string \<times> string"

definition gff_line :: "string \<Rightarrow> string \<Rightarrow> gff_record emit list" where
  \<comment> \<open>The \<open>try\<close> statement of the main loop for one line: nine tab-separated fields give a
      record; anything else raises ValueError in the unpacking, which is caught.\<close>
  "gff_line filename line =
     (case split line [CHR 0x09] of
        [sequence, source, feature, start, end', score, strand, phase, attributes] \<Rightarrow>
          [Yield (sequence, start, end', attributes)]
      | _ \<Rightarrow>
          if line = ''###'' then [Log DEBUG (''Reached end of '' @ filename)]
          else [Log ERROR (''Couldn'' @ [CHR 0x27] @ ''t parse gff, the offending line was:''
                           @ [CHR 0x0A] @ line)])"

function skip_comments :: "string \<Rightarrow> string list \<Rightarrow> string \<times> string list" where
  \<comment> \<open>\<open>while line.startswith("#"): line = f.readline()\<close>\<close>
  "skip_comments line f =
     (if startswith line ''#'' then (case readline f of (line', f') \<Rightarrow> skip_comments line' f')
      else (line, f))"
  by pat_completeness auto
termination
  by (relation "measure (\<lambda>(line, f). length f + (if startswith line ''#'' then 1 else 0))")
    (auto simp: readline_def startswith_def split: list.splits)

function gff_records :: "string \<Rightarrow> string \<Rightarrow> string list \<Rightarrow> gff_record emit list" where
  \<comment> \<open>\<open>while line: try: ... except ValueError: ...; line = f.readline()\<close>\<close>
  "gff_records filename line f =
     (if line \<noteq> [] then
        gff_line filename line @ (case readline f of (line', f') \<Rightarrow> gff_records filename line' f')
      else [])"
  by pat_completeness auto
termination
  by (relation "measure (\<lambda>(filename, line, f). length f + (if line \<noteq> [] then 1 else 0))")
    (auto simp: readline_def split: list.splits)

definition parse_gff :: "filesystem \<Rightarrow> string \<Rightarrow> gff_record emit list \<times> error option" where
  "parse_gff fs filename =
     (case open_text fs filename of
        Inl e \<Rightarrow> ([], Some e)
      | Inr f \<Rightarrow>
          (case readline f of
             (line, f') \<Rightarrow>
               if \<not> startswith line ''##gff-version 3''
               then ([Log DEBUG (''Parsing '' @ filename @ ''...'')],
                     Some (Exception ''Parse error, wrong gff version or not gff file.''))
               else (case skip_comments line f' of
                       (line', f'') \<Rightarrow>
                         (Log DEBUG (''Parsing '' @ filename @ ''...'') # gff_records filename line' f'',
                          None))))"

section \<open>The taxonomy store and its extension (lines 154--246, 326--360)\<close>

text \<open>
  \<open>NCBITaxa_mod\<close> holds \<open>self.db\<close>, an \<open>sqlite3\<close> connection to the taxonomy database of
  ETE3. The model of the connection is what its statements see: the tables by name,
  each with its columns and its rows in the order of the scan. Table and column names
  are compared as the program writes them. Rows are stored as they are bound (the
  program binds \<open>str\<close> to TEXT columns and \<open>int\<close> to INT columns, which have INTEGER
  affinity, and SQLite stores such values unchanged). Foreign keys (\<open>REFERENCES\<close>) are not enforced by SQLite unless switched on,
  which the program never does, so they are left out of the columns. Transactions and
  \<open>commit\<close> are not modelled.
\<close>

datatype sql_value = Null | Integer int | Text string

datatype affinity = TEXT | INTEGER

record column =
  col_name :: string
  col_type :: affinity
  primary_key :: bool

record table =
  columns :: "column list"
  rows :: "sql_value list list"

type_synonym taxa_db = "string \<rightharpoonup> table"

datatype statement =
    Drop_table_if_exists string
  | Create_table string "column list"
  | Insert_into string "sql_value list"

definition digit_char :: "nat \<Rightarrow> char" where
  "digit_char d = char_of (48 + d)"

function show_nat :: "nat \<Rightarrow> string" where
  "show_nat n = (if n < 10 then [digit_char n] else show_nat (n div 10) @ [digit_char (n mod 10)])"
  by pat_completeness auto
termination
  by (relation "measure id") auto


definition cell :: "sql_value list \<Rightarrow> nat \<Rightarrow> sql_value" where
  "cell r i = (if i < length r then r ! i else Null)"

definition bindable :: "sql_value \<Rightarrow> bool" where
  \<comment> \<open>A Python integer is bound as a signed 64-bit INTEGER.\<close>
  "bindable v = (case v of Integer i \<Rightarrow> int64 i | _ \<Rightarrow> True)"

definition key_taken :: "table \<Rightarrow> sql_value list \<Rightarrow> bool" where
  \<comment> \<open>Some PRIMARY KEY column of the new row holds a value that a stored row holds in that
      column (\<open>NULL\<close> never collides).\<close>
  "key_taken t vals =
     list_ex (\<lambda>i. primary_key (columns t ! i) \<and> cell vals i \<noteq> Null \<and>
                  list_ex (\<lambda>r. cell r i = cell vals i) (rows t))
       [0..<length (columns t)]"

definition execute :: "taxa_db \<Rightarrow> statement \<Rightarrow> error + taxa_db" where
  "execute db s =
     (case s of
        Drop_table_if_exists n \<Rightarrow> Inr (db(n := None))
      | Create_table n cols \<Rightarrow>
          (case db n of
             Some t \<Rightarrow> Inl (OperationalError (''table '' @ n @ '' already exists''))
           | None \<Rightarrow> Inr (db(n \<mapsto> \<lparr>columns = cols, rows = []\<rparr>)))
      | Insert_into n vals \<Rightarrow>
          (case db n of
             None \<Rightarrow> Inl (OperationalError (''no such table: '' @ n))
           | Some t \<Rightarrow>
               if length vals \<noteq> length (columns t)
               then Inl (OperationalError (''table '' @ n @ '' has '' @ show_nat (length (columns t))
                          @ '' columns but '' @ show_nat (length vals) @ '' values were supplied''))
               else if \<not> list_all bindable vals then Inl OverflowError
               else if key_taken t vals then Inl IntegrityError
               else Inr (db(n \<mapsto> t\<lparr>rows := rows t @ [vals]\<rparr>))))"

fun execute_all :: "taxa_db \<Rightarrow> statement list \<Rightarrow> taxa_db \<times> error option" where
  \<comment> \<open>Statements run one after the other; an exception leaves the function with the
      connection as the statements before it made it.\<close>
  "execute_all db [] = (db, None)"
| "execute_all db (s # ss) =
     (case execute db s of Inl e \<Rightarrow> (db, Some e) | Inr db' \<Rightarrow> execute_all db' ss)"

text \<open>
  The columns of the tables that \<open>expand_taxonomy_db\<close> creates, as its
  \<^verbatim>\<open>CREATE TABLE\<close> statements list them (lines 200--206).
\<close>

definition version_columns :: "column list" where
  \<comment> \<open>\<^verbatim>\<open>version(created TEXT, refseq TEXT, taxonomy TEXT, comment TEXT)\<close>\<close>
  "version_columns =
     [\<lparr>col_name = ''created'', col_type = TEXT, primary_key = False\<rparr>,
      \<lparr>col_name = ''refseq'', col_type = TEXT, primary_key = False\<rparr>,
      \<lparr>col_name = ''taxonomy'', col_type = TEXT, primary_key = False\<rparr>,
      \<lparr>col_name = ''comment'', col_type = TEXT, primary_key = False\<rparr>]"

definition peptides_columns :: "column list" where
  \<comment> \<open>\<^verbatim>\<open>peptides(peptide TEXT, target TEXT, start INT, end INT, identity INT, matches INT)\<close>\<close>
  "peptides_columns =
     [\<lparr>col_name = ''peptide'', col_type = TEXT, primary_key = False\<rparr>,
      \<lparr>col_name = ''target'', col_type = TEXT, primary_key = False\<rparr>,
      \<lparr>col_name = ''start'', col_type = INTEGER, primary_key = False\<rparr>,
      \<lparr>col_name = ''end'', col_type = INTEGER, primary_key = False\<rparr>,
      \<lparr>col_name = ''identity'', col_type = INTEGER, primary_key = False\<rparr>,
      \<lparr>col_name = ''matches'', col_type = INTEGER, primary_key = False\<rparr>]"

definition discriminative_columns :: "column list" where
  \<comment> \<open>\<^verbatim>\<open>discriminative(peptide TEXT PRIMARY KEY REFERENCES peptides(peptide), taxid INT REFERENCES species(taxid))\<close>\<close>
  "discriminative_columns =
     [\<lparr>col_name = ''peptide'', col_type = TEXT, primary_key = True\<rparr>,
      \<lparr>col_name = ''taxid'', col_type = INTEGER, primary_key = False\<rparr>]"

definition refseqs_columns :: "column list" where
  \<comment> \<open>\<^verbatim>\<open>refseqs(header TEXT PRIMARY KEY, taxid INT)\<close>\<close>
  "refseqs_columns =
     [\<lparr>col_name = ''header'', col_type = TEXT, primary_key = True\<rparr>,
      \<lparr>col_name = ''taxid'', col_type = INTEGER, primary_key = False\<rparr>]"

definition annotations_columns :: "column list" where
  \<comment> \<open>\<^verbatim>\<open>annotations(header TEXT REFERENCES refseqs(header), start INT, end INT, annotation TEXT)\<close>\<close>
  "annotations_columns =
     [\<lparr>col_name = ''header'', col_type = TEXT, primary_key = False\<rparr>,
      \<lparr>col_name = ''start'', col_type = INTEGER, primary_key = False\<rparr>,
      \<lparr>col_name = ''end'', col_type = INTEGER, primary_key = False\<rparr>,
      \<lparr>col_name = ''annotation'', col_type = TEXT, primary_key = False\<rparr>]"

definition gene_columns :: "column list" where
  \<comment> \<open>\<^verbatim>\<open>gene(taxid TEXT REFERENCES species(taxid), gene_id INT PRIMARY KEY, symbol TEXT, description TEXT)\<close>\<close>
  "gene_columns =
     [\<lparr>col_name = ''taxid'', col_type = TEXT, primary_key = False\<rparr>,
      \<lparr>col_name = ''gene_id'', col_type = INTEGER, primary_key = True\<rparr>,
      \<lparr>col_name = ''symbol'', col_type = TEXT, primary_key = False\<rparr>,
      \<lparr>col_name = ''description'', col_type = TEXT, primary_key = False\<rparr>]"

definition expand_taxonomy_db ::
  "taxa_db \<Rightarrow> string \<Rightarrow> string \<Rightarrow> string \<Rightarrow> string \<Rightarrow> taxa_db \<times> error option" where
  \<comment> \<open>\<open>creation_date\<close> is what \<open>time.strftime("%Y-%M-%d")\<close> returns at the call (year,
      minute, day of the month). The result is the connection after the call and the
      exception that left it, if any.\<close>
  "expand_taxonomy_db db creation_date refseq_ver taxonomy_ver comment =
     execute_all db
       [Drop_table_if_exists ''version'',
        Drop_table_if_exists ''peptides'',
        Drop_table_if_exists ''discriminative'',
        Drop_table_if_exists ''refseqs'',
        Drop_table_if_exists ''annotations'',
        Create_table ''version'' version_columns,
        Insert_into ''version'' [Text creation_date, Text refseq_ver, Text taxonomy_ver, Text comment],
        Create_table ''peptides'' peptides_columns,
        Create_table ''discriminative'' discriminative_columns,
        Create_table ''refseqs'' refseqs_columns,
        Create_table ''annotations'' annotations_columns,
        Create_table ''gene'' gene_columns]"

subsection \<open>Reference sequences\<close>

definition refseq_item :: "string \<Rightarrow> error + string \<times> int" where
  \<comment> \<open>The body of the loop of \<open>parse_refseqs\<close> for one line: \<open>header, taxid = line.split()\<close>,
      then \<open>header, int(taxid)\<close>.\<close>
  "refseq_item line =
     (case split_whitespace line of
        [header, taxid] \<Rightarrow> (case py_int taxid of Inl e \<Rightarrow> Inl e | Inr t \<Rightarrow> Inr (header, t))
      | _ \<Rightarrow> Inl ValueError)"

definition parse_refseqs :: "filesystem \<Rightarrow> string \<Rightarrow> (error + string \<times> int) list" where
  \<comment> \<open>The generator as the outcome of each \<open>next()\<close> in turn, as \<open>gi_taxid_generator\<close>.\<close>
  "parse_refseqs fs filename =
     (case open_text fs filename of
        Inl e \<Rightarrow> [Inl e]
      | Inr ls \<Rightarrow> map refseq_item ls)"

fun insert_refseqs_into_db :: "taxa_db \<Rightarrow> (error + string \<times> int) list \<Rightarrow> taxa_db \<times> error option" where
  \<comment> \<open>\<open>executemany("INSERT INTO refseqs VALUES (?, ?)", refseqs)\<close> on a generator: each
      item is taken and inserted before the next one is asked for.\<close>
  "insert_refseqs_into_db db [] = (db, None)"
| "insert_refseqs_into_db db (Inl e # refseqs) = (db, Some e)"
| "insert_refseqs_into_db db (Inr (header, taxid) # refseqs) =
     (case execute db (Insert_into ''refseqs'' [Text header, Integer taxid]) of
        Inl e \<Rightarrow> (db, Some e)
      | Inr db' \<Rightarrow> insert_refseqs_into_db db' refseqs)"

definition prepare_db ::
  "taxa_db \<Rightarrow> string \<Rightarrow> filesystem \<Rightarrow> string \<Rightarrow> string \<Rightarrow> string \<Rightarrow> string \<Rightarrow> string \<Rightarrow> string \<Rightarrow> string
     \<Rightarrow> taxa_db \<times> error option" where
  \<comment> \<open>\<open>db\<close> is the connection that \<open>NCBITaxa_mod(dbfile)\<close> opens (the constructor belongs to
      ETE3); \<open>creation_date\<close> is the clock reading of \<open>expand_taxonomy_db\<close>. The other
      arguments are those of the source, in its order, from \<open>refseqs\<close> on.\<close>
  "prepare_db db creation_date fs refseqs gene_info annotations_dir globpattern_gff
       taxonomy_ver refseq_ver comment =
     (case expand_taxonomy_db db creation_date ''2015-11-17'' ''2015-11-17'' ''second try'' of
        (db', Some e) \<Rightarrow> (db', Some e)
      | (db', None) \<Rightarrow> insert_refseqs_into_db db' (parse_refseqs fs refseqs))"

subsection \<open>find\_refseq\_header\<close>








section \<open>Example inputs\<close>


definition ecoli_record :: entrez where
  \<comment> \<open>A service that answers every accession with a sequence record of taxid 562.\<close>
  "ecoli_record accno = Inr ''<TSeq><TSeq_taxid>562</TSeq_taxid></TSeq>''"

definition taxid0_record :: entrez where
  \<comment> \<open>A service that answers every accession with a sequence record of taxid 0.\<close>
  "taxid0_record accno = Inr ''<TSeq><TSeq_taxid>0</TSeq_taxid></TSeq>''"

definition tab_separated :: "string list \<Rightarrow> string" where
  "tab_separated cells =
     (case cells of [] \<Rightarrow> [] | x # xs \<Rightarrow> x @ concat (map (\<lambda>y. CHR 0x09 # y) xs))"

definition gff_disk :: filesystem where
  \<comment> \<open>An annotation file of one record, closed by a line \<open>###\<close>.\<close>
  "gff_disk = [''genome.gff'' \<mapsto> Text_file
     (''##gff-version 3\<newline>''
      @ tab_separated [''NC_000913.3'', ''RefSeq'', ''gene'', ''190'', ''255'', ''.'', ''+'', ''.'', ''ID=gene0'']
      @ ''\<newline>###\<newline>'')]"

definition base_store :: taxa_db where
  \<comment> \<open>A store in the base state: the species table of the inherited taxonomy schema and
      none of the extension tables.\<close>
  "base_store = [''species'' \<mapsto>
     \<lparr>columns = [\<lparr>col_name = ''taxid'', col_type = INTEGER, primary_key = True\<rparr>,
                 \<lparr>col_name = ''parent'', col_type = INTEGER, primary_key = False\<rparr>,
                 \<lparr>col_name = ''spname'', col_type = TEXT, primary_key = False\<rparr>,
                 \<lparr>col_name = ''common'', col_type = TEXT, primary_key = False\<rparr>,
                 \<lparr>col_name = ''rank'', col_type = TEXT, primary_key = False\<rparr>,
                 \<lparr>col_name = ''track'', col_type = TEXT, primary_key = False\<rparr>],
      rows = [[Integer 562, Integer 561, Text ''Escherichia coli'', Text [], Text ''species'',
               Text ''562,561,543,91347,1236,1224,2,131567,1'']]\<rparr>]"

definition mappings_disk :: filesystem where
  \<comment> \<open>A header-to-taxid mapping file of two reference sequences whose headers both
      contain \<open>NC_0009\<close>.\<close>
  "mappings_disk = [''header_taxid_mappings.tab'' \<mapsto> Text_file
     (tab_separated [''gi|556503834|ref|NC_000913.3|'', ''511145''] @ ''\<newline>''
      @ tab_separated [''gi|16445344|ref|NC_000964.3|'', ''224308''] @ ''\<newline>'')]"


definition dump2 :: filesystem where
  "dump2 = [''gi_taxid_nucl.dmp'' \<mapsto> Text_file ''12345 9606\<newline>67890 10090\<newline>'']"

definition dump50 :: filesystem where
  \<comment> \<open>A dump of 50 pairs: gi \<open>i\<close> with taxid \<open>9600 + i\<close>, for \<open>i\<close> from 1 to 50.\<close>
  "dump50 = [''gi_taxid_nucl.dmp'' \<mapsto> Text_file ''1 9601\<newline>2 9602\<newline>3 9603\<newline>4 9604\<newline>5 9605\<newline>6 9606\<newline>7 9607\<newline>8 9608\<newline>9 9609\<newline>10 9610\<newline>11 9611\<newline>12 9612\<newline>13 9613\<newline>14 9614\<newline>15 9615\<newline>16 9616\<newline>17 9617\<newline>18 9618\<newline>19 9619\<newline>20 9620\<newline>21 9621\<newline>22 9622\<newline>23 9623\<newline>24 9624\<newline>25 9625\<newline>26 9626\<newline>27 9627\<newline>28 9628\<newline>29 9629\<newline>30 9630\<newline>31 9631\<newline>32 9632\<newline>33 9633\<newline>34 9634\<newline>35 9635\<newline>36 9636\<newline>37 9637\<newline>38 9638\<newline>39 9639\<newline>40 9640\<newline>41 9641\<newline>42 9642\<newline>43 9643\<newline>44 9644\<newline>45 9645\<newline>46 9646\<newline>47 9647\<newline>48 9648\<newline>49 9649\<newline>50 9650\<newline>'']"

section \<open>Properties\<close>

subsection \<open>The lookup store\<close>

declare grouper.simps [simp del]

lemma pull_map_Inr: "pull (map Inr ps) = Inr ps"
  by (induction ps) auto

lemma pull_Inr_D: "pull xs = Inr ps \<Longrightarrow> xs = map Inr ps"
proof (induction xs arbitrary: ps)
  case Nil
  then show ?case by simp
next
  case (Cons x xs)
  then show ?case by (cases x) (auto split: sum.splits)
qed

lemma executemany_append:
  "executemany c (a @ b) =
     (case executemany c a of Inl e \<Rightarrow> Inl e | Inr c' \<Rightarrow> executemany c' b)"
  by (induction a arbitrary: c) (auto split: sum.splits)

lemma grouper_map: "grouper n (map f xs) = map (map f) (grouper n xs)"
proof (induction n xs rule: grouper.induct)
  case (1 n xs)
  show ?case
  proof (cases "n = 0 \<or> xs = []")
    case True
    then show ?thesis by (auto simp: grouper.simps)
  next
    case False
    with 1 have "grouper n (map f (drop n xs)) = map (map f) (grouper n (drop n xs))" by simp
    with False show ?thesis
      by (subst grouper.simps, subst (2) grouper.simps) (simp add: take_map drop_map)
  qed
qed

lemma insert_chunks_all_pairs:
  "0 < n \<Longrightarrow> insert_chunks c (map (map Inr) (grouper n ps)) = executemany c ps"
proof (induction n ps arbitrary: c rule: grouper.induct)
  case (1 n xs)
  show ?case
  proof (cases "xs = []")
    case True
    then show ?thesis by (simp add: grouper.simps)
  next
    case False
    with 1 have IH: "\<And>c. insert_chunks c (map (map Inr) (grouper n (drop n xs))) = executemany c (drop n xs)"
      by simp
    have "executemany c xs = executemany c (take n xs @ drop n xs)" by simp
    also have "\<dots> = (case executemany c (take n xs) of Inl e \<Rightarrow> Inl e
                      | Inr c' \<Rightarrow> executemany c' (drop n xs))"
      by (rule executemany_append)
    finally show ?thesis using False 1(2) IH
      by (subst grouper.simps) (simp add: pull_map_Inr split: sum.splits)
  qed
qed

lemma insert_chunks_wellformed:
  "0 < n \<Longrightarrow> insert_chunks c (grouper n (map Inr ps)) = executemany c ps"
  by (simp add: grouper_map insert_chunks_all_pairs)

lemma insert_chunks_Inr_D:
  "insert_chunks c (grouper n items) = Inr c' \<Longrightarrow> 0 < n \<Longrightarrow> \<exists>ps. items = map Inr ps"
proof (induction n items arbitrary: c rule: grouper.induct)
  case (1 n xs)
  show ?case
  proof (cases "xs = []")
    case True
    then show ?thesis by simp
  next
    case False
    with 1(2,3) obtain ps c1 where p: "pull (take n xs) = Inr ps"
      and r: "insert_chunks c1 (grouper n (drop n xs)) = Inr c'"
      by (subst (asm) grouper.simps) (auto split: sum.splits)
    from 1(1)[OF _ r] False 1(3) obtain qs where "drop n xs = map Inr qs" by auto
    moreover from p have "take n xs = map Inr ps" by (rule pull_Inr_D)
    ultimately have "take n xs @ drop n xs = map Inr (ps @ qs)" by simp
    then show ?thesis by (metis append_take_drop_id)
  qed
qed

lemma wellformed_items: "(\<forall>it\<in>set items. \<not> isl it) \<Longrightarrow> items = map Inr (map projr items)"
  by (induction items) (auto simp: isl_def)

lemma executemany_Database:
  "executemany (Database (Some tbl)) ps = Inr c \<Longrightarrow>
     c = Database (Some (tbl @ ps)) \<and>
     (distinct (map fst tbl) \<longrightarrow> distinct (map fst (tbl @ ps))) \<and>
     (\<forall>p\<in>set ps. int64 (fst p) \<and> int64 (snd p))"
proof (induction ps arbitrary: tbl)
  case Nil
  then show ?case by simp
next
  case (Cons p ps)
  from Cons.prems have ok: "int64 (fst p)" "int64 (snd p)" "fst p \<notin> set (map fst tbl)"
    and rest: "executemany (Database (Some (tbl @ [p]))) ps = Inr c"
    by (auto simp: insert_gi_taxid_def split: if_splits)
  from Cons.IH[OF rest] ok show ?case by auto
qed

lemma executemany_ok:
  "distinct (map fst (tbl @ ps)) \<Longrightarrow> \<forall>p\<in>set ps. int64 (fst p) \<and> int64 (snd p) \<Longrightarrow>
     executemany (Database (Some tbl)) ps = Inr (Database (Some (tbl @ ps)))"
proof (induction ps arbitrary: tbl)
  case Nil
  then show ?case by simp
next
  case (Cons p ps)
  from Cons.prems have "insert_gi_taxid (Database (Some tbl)) p = Inr (Database (Some (tbl @ [p])))"
    by (auto simp: insert_gi_taxid_def)
  moreover from Cons.prems have "executemany (Database (Some (tbl @ [p]))) ps = Inr (Database (Some ((tbl @ [p]) @ ps)))"
    by (intro Cons.IH) auto
  ultimately show ?case by simp
qed

lemma filter_key_distinct:
  "distinct (map fst tbl) \<Longrightarrow> (g, t) \<in> set tbl \<Longrightarrow> filter (\<lambda>r. fst r = g) tbl = [(g, t)]"
proof (induction tbl)
  case Nil
  then show ?case by simp
next
  case (Cons r tbl)
  show ?case
  proof (cases "r = (g, t)")
    case True
    with Cons.prems have "\<forall>x\<in>set tbl. fst x \<noteq> g" by force
    then have "filter (\<lambda>r. fst r = g) tbl = []" by (simp add: filter_empty_conv)
    with True show ?thesis by simp
  next
    case False
    with Cons.prems have in_rest: "(g, t) \<in> set tbl" by simp
    then have "g \<in> fst ` set tbl" by force
    with Cons.prems have "fst r \<noteq> g" by auto
    with Cons in_rest show ?thesis by simp
  qed
qed

lemma filter_key_absent:
  "key \<notin> fst ` set tbl \<Longrightarrow> filter (\<lambda>r. fst r = key) tbl = []"
  by (auto simp: filter_empty_conv)

lemma getitem_present:
  "con w = Database (Some tbl) \<Longrightarrow> distinct (map fst tbl) \<Longrightarrow> (g, t) \<in> set tbl \<Longrightarrow> int64 g \<Longrightarrow>
     getitem w g = Inr (Some t)"
  by (simp add: getitem_def select_taxid_def filter_key_distinct fetchone_def first_column_def)

lemma getitem_absent:
  "con w = Database (Some tbl) \<Longrightarrow> key \<notin> fst ` set tbl \<Longrightarrow> int64 key \<Longrightarrow>
     getitem w key = Inr None"
  by (simp add: getitem_def select_taxid_def filter_key_absent fetchone_def first_column_def)

lemma create_built:
  assumes "create_gi_taxid_db fs db dmp n = Inr c" "0 < n"
  shows "\<exists>ps. gi_taxid_generator fs dmp = map Inr ps \<and> c = Database (Some ps) \<and>
           distinct (map fst ps) \<and> (\<forall>p\<in>set ps. int64 (fst p) \<and> int64 (snd p))"
proof -
  from assms(1) have c0: "create_table_gi_taxid (sqlite3_connect fs db) = Inr (Database (Some []))"
    and ins: "insert_chunks (Database (Some [])) (grouper n (gi_taxid_generator fs dmp)) = Inr c"
    by (auto simp: create_gi_taxid_db_def create_table_gi_taxid_def
        split: sum.splits connection.splits option.splits)
  from insert_chunks_Inr_D[OF ins assms(2)] obtain ps where ps: "gi_taxid_generator fs dmp = map Inr ps"
    by blast
  with ins assms(2) have "executemany (Database (Some [])) ps = Inr c"
    by (simp add: insert_chunks_wellformed)
  from executemany_Database[OF this] ps show ?thesis by auto
qed

lemma create_gi_taxid_db_fresh:
  assumes "fs db = None" "gi_taxid_generator fs dmp = map Inr ps" "0 < n"
  shows "create_gi_taxid_db fs db dmp n = executemany (Database (Some [])) ps"
proof -
  from assms(1) have "create_table_gi_taxid (sqlite3_connect fs db) = Inr (Database (Some []))"
    by (simp add: sqlite3_connect_def create_table_gi_taxid_def)
  with assms(2,3) show ?thesis
    by (simp add: create_gi_taxid_db_def insert_chunks_wellformed)
qed

text \<open>
  Claim C3, as amended. In a store built by \<open>create_gi_taxid_db\<close> from a dump, the lookup
  \<open>__getitem__\<close> returns for every gi of the dump exactly the taxid it was inserted
  with, and returns \<open>None\<close>, raising nothing, for every identifier that is not in the
  store and lies in the signed 64-bit range of an SQLite INTEGER.
\<close>

theorem getitem_built_store:
  assumes built: "create_gi_taxid_db fs db dmp n = Inr (con w)" and n: "0 < n"
  shows "(\<forall>gi taxid. Inr (gi, taxid) \<in> set (gi_taxid_generator fs dmp) \<longrightarrow>
            getitem w gi = Inr (Some taxid)) \<and>
         (\<forall>key. int64 key \<and> (\<forall>taxid. Inr (key, taxid) \<notin> set (gi_taxid_generator fs dmp)) \<longrightarrow>
            getitem w key = Inr None)"
proof -
  from create_built[OF built n] obtain ps where
    gen: "gi_taxid_generator fs dmp = map Inr ps" and c: "con w = Database (Some ps)"
    and d: "distinct (map fst ps)" and r: "\<forall>p\<in>set ps. int64 (fst p) \<and> int64 (snd p)"
    by blast
  have present: "getitem w gi = Inr (Some taxid)"
    if "Inr (gi, taxid) \<in> set (gi_taxid_generator fs dmp)" for gi taxid
  proof -
    from that gen have m: "(gi, taxid) \<in> set ps" by auto
    with r have "int64 gi" by force
    with c d m show ?thesis by (rule getitem_present)
  qed
  have absent: "getitem w key = Inr None"
    if "int64 key" "\<forall>taxid. Inr (key, taxid) \<notin> set (gi_taxid_generator fs dmp)" for key
  proof -
    from that(2) gen have "key \<notin> fst ` set ps" by force
    with c show ?thesis using that(1) by (rule getitem_absent)
  qed
  from present absent show ?thesis by blast
qed

text \<open>
  The scenario of the specification: the dump \<open>12345 9606\<close>, \<open>67890 10090\<close>.
\<close>

theorem getitem_built_store_witness:
  "create_gi_taxid_db dump2 ''gi_taxid.db'' ''gi_taxid_nucl.dmp'' 200000 =
     Inr (Database (Some [(12345, 9606), (67890, 10090)])) \<and>
   getitem \<lparr>sqlite3db_file = ''gi_taxid.db'', con = Database (Some [(12345, 9606), (67890, 10090)])\<rparr> 12345
     = Inr (Some 9606) \<and>
   getitem \<lparr>sqlite3db_file = ''gi_taxid.db'', con = Database (Some [(12345, 9606), (67890, 10090)])\<rparr> 67890
     = Inr (Some 10090) \<and>
   getitem \<lparr>sqlite3db_file = ''gi_taxid.db'', con = Database (Some [(12345, 9606), (67890, 10090)])\<rparr> 4711
     = Inr None"
proof -
  let ?w = "\<lparr>sqlite3db_file = ''gi_taxid.db'', con = Database (Some [(12345, 9606), (67890, 10090)])\<rparr>"
  have fresh: "dump2 ''gi_taxid.db'' = None" by (simp add: dump2_def)
  have gen: "gi_taxid_generator dump2 ''gi_taxid_nucl.dmp'' = map Inr [(12345, 9606), (67890, 10090)]"
    by code_simp
  have n: "(0::nat) < 200000" by simp
  have "executemany (Database (Some [])) [(12345, 9606), (67890, 10090)] = Inr (con ?w)"
    by code_simp
  with create_gi_taxid_db_fresh[OF fresh gen n]
  have built: "create_gi_taxid_db dump2 ''gi_taxid.db'' ''gi_taxid_nucl.dmp'' 200000 = Inr (con ?w)"
    by simp
  have r: "int64 4711" by (simp add: int64_def)
  from getitem_built_store[OF built n] gen r built show ?thesis by simp
qed

text \<open>
  Claim C3 as stated fails for an identifier outside the 64-bit range: \<open>2 ^ 63\<close> is not
  in the store, and the lookup raises \<open>OverflowError\<close> when the key is bound; the
  \<open>except TypeError\<close> of \<open>__getitem__\<close> does not catch it.
\<close>

theorem getitem_overflow_counterexample:
  "create_gi_taxid_db dump2 ''gi_taxid.db'' ''gi_taxid_nucl.dmp'' 200000 =
     Inr (Database (Some [(12345, 9606), (67890, 10090)])) \<and>
   getitem \<lparr>sqlite3db_file = ''gi_taxid.db'', con = Database (Some [(12345, 9606), (67890, 10090)])\<rparr>
     9223372036854775808 = Inl OverflowError"
proof -
  have fresh: "dump2 ''gi_taxid.db'' = None" by (simp add: dump2_def)
  have gen: "gi_taxid_generator dump2 ''gi_taxid_nucl.dmp'' = map Inr [(12345, 9606), (67890, 10090)]"
    by code_simp
  have n: "(0::nat) < 200000" by simp
  have "executemany (Database (Some [])) [(12345, 9606), (67890, 10090)] =
      Inr (Database (Some [(12345, 9606), (67890, 10090)]))"
    by code_simp
  with create_gi_taxid_db_fresh[OF fresh gen n]
  have "create_gi_taxid_db dump2 ''gi_taxid.db'' ''gi_taxid_nucl.dmp'' 200000 =
      Inr (Database (Some [(12345, 9606), (67890, 10090)]))"
    by simp
  moreover have "getitem \<lparr>sqlite3db_file = ''gi_taxid.db'', con = Database (Some [(12345, 9606), (67890, 10090)])\<rparr>
     9223372036854775808 = Inl OverflowError"
    by code_simp
  ultimately show ?thesis by simp
qed

text \<open>
  Claim C5, as amended. For a dump file of N well-formed lines whose gi numbers are
  pairwise distinct and whose integers fit 64 bits, building the store at a path with
  no file yields a store with exactly the N pairs of the dump, and \<open>__len__\<close> returns N.
  \<open>__len__\<close> counts the rows of the table each time it is called: on any table it
  returns the number of its rows.
\<close>

theorem create_gi_taxid_db_count:
  assumes fresh: "fs db = None"
    and dump: "fs dmp = Some (Text_file content)"
    and wf: "map gi_taxid_item (file_lines content) = map Inr pairs"
    and keys: "distinct (map fst pairs)"
    and range: "\<forall>p\<in>set pairs. int64 (fst p) \<and> int64 (snd p)"
    and n: "0 < n"
  shows "create_gi_taxid_db fs db dmp n = Inr (Database (Some pairs)) \<and>
         length pairs = length (file_lines content) \<and>
         len \<lparr>sqlite3db_file = db, con = Database (Some pairs)\<rparr> = Inr (int (length (file_lines content))) \<and>
         (\<forall>stored. len \<lparr>sqlite3db_file = db, con = Database (Some stored)\<rparr> = Inr (int (length stored)))"
proof -
  from wf have l: "length pairs = length (file_lines content)"
    by (metis length_map)
  from dump wf have gen: "gi_taxid_generator fs dmp = map Inr pairs"
    by (simp add: gi_taxid_generator_def open_text_def)
  from fresh have "create_table_gi_taxid (sqlite3_connect fs db) = Inr (Database (Some []))"
    by (simp add: sqlite3_connect_def create_table_gi_taxid_def)
  with gen n have "create_gi_taxid_db fs db dmp n = executemany (Database (Some [])) pairs"
    by (simp add: create_gi_taxid_db_def insert_chunks_wellformed)
  also from keys range have "\<dots> = Inr (Database (Some ([] @ pairs)))"
    by (intro executemany_ok) auto
  finally have "create_gi_taxid_db fs db dmp n = Inr (Database (Some pairs))" by simp
  moreover have "len \<lparr>sqlite3db_file = db, con = Database (Some stored)\<rparr> = Inr (int (length stored))"
    for stored
    by (simp add: len_def select_count_def fetchone_def first_column_def)
  ultimately show ?thesis using l by simp
qed

theorem create_gi_taxid_db_count_witness:
  "create_gi_taxid_db dump2 ''gi_taxid.db'' ''gi_taxid_nucl.dmp'' 200000 =
     Inr (Database (Some [(12345, 9606), (67890, 10090)])) \<and>
   length (file_lines ''12345 9606\<newline>67890 10090\<newline>'') = 2 \<and>
   len \<lparr>sqlite3db_file = ''gi_taxid.db'', con = Database (Some [(12345, 9606), (67890, 10090)])\<rparr> = Inr 2"
proof -
  have fresh: "dump2 ''gi_taxid.db'' = None" by (simp add: dump2_def)
  have dump: "dump2 ''gi_taxid_nucl.dmp'' = Some (Text_file ''12345 9606\<newline>67890 10090\<newline>'')"
    by (simp add: dump2_def)
  have wf: "map gi_taxid_item (file_lines ''12345 9606\<newline>67890 10090\<newline>'') =
      map Inr [(12345, 9606), (67890, 10090)]"
    by code_simp
  have keys: "distinct (map fst [(12345 :: int, 9606 :: int), (67890, 10090)])" by simp
  have range: "\<forall>p\<in>set [(12345 :: int, 9606 :: int), (67890, 10090)]. int64 (fst p) \<and> int64 (snd p)"
    by (simp add: int64_def)
  have n: "(0::nat) < 200000" by simp
  have l: "length (file_lines ''12345 9606\<newline>67890 10090\<newline>'') = 2" by code_simp
  from create_gi_taxid_db_count[of dump2 "''gi_taxid.db''" "''gi_taxid_nucl.dmp''" _ _ 200000,
      OF fresh dump wf keys range n] l
  show ?thesis by simp
qed

text \<open>
  Claim C5 as stated fails for a dump of two well-formed lines with the same gi: the
  second insert violates the primary key and the build raises \<open>IntegrityError\<close>.
\<close>

theorem create_gi_taxid_db_duplicate_counterexample:
  "map gi_taxid_item (file_lines ''1 2\<newline>1 3\<newline>'') = [Inr (1, 2), Inr (1, 3)] \<and>
   create_gi_taxid_db [''gi_taxid_nucl.dmp'' \<mapsto> Text_file ''1 2\<newline>1 3\<newline>'']
     ''gi_taxid.db'' ''gi_taxid_nucl.dmp'' 200000 = Inl IntegrityError"
proof -
  let ?fs = "[''gi_taxid_nucl.dmp'' \<mapsto> Text_file ''1 2\<newline>1 3\<newline>'']"
  have items: "map gi_taxid_item (file_lines ''1 2\<newline>1 3\<newline>'') = [Inr (1, 2), Inr (1, 3)]"
    by code_simp
  have fresh: "?fs ''gi_taxid.db'' = None" by simp
  have gen: "gi_taxid_generator ?fs ''gi_taxid_nucl.dmp'' = map Inr [(1, 2), (1, 3)]"
    by code_simp
  have n: "(0::nat) < 200000" by simp
  have "executemany (Database (Some [])) [(1, 2), (1, 3)] = Inl IntegrityError"
    by code_simp
  with create_gi_taxid_db_fresh[OF fresh gen n] items show ?thesis by simp
qed

text \<open>
  Claim C6. For a well-formed dump (every line gives a pair), the load gives the same
  result for every two positive chunk sizes: the same store, or the same exception.
\<close>

theorem chunk_size_irrelevant:
  assumes wf: "\<forall>item\<in>set (gi_taxid_generator fs dmp). \<not> isl item"
    and n: "0 < n" and m: "0 < m"
  shows "create_gi_taxid_db fs db dmp n = create_gi_taxid_db fs db dmp m"
proof -
  from wf have "gi_taxid_generator fs dmp = map Inr (map projr (gi_taxid_generator fs dmp))"
    by (rule wellformed_items)
  then obtain ps where gen: "gi_taxid_generator fs dmp = map Inr ps" ..
  from n m show ?thesis
    by (simp add: create_gi_taxid_db_def gen insert_chunks_wellformed split: sum.splits)
qed

text \<open>
  The 50-pair input with chunk sizes 1, 7 and 200000.
\<close>

theorem chunk_size_irrelevant_witness:
  "gi_taxid_generator dump50 ''gi_taxid_nucl.dmp'' = map (\<lambda>i. Inr (i, 9600 + i)) [1..50] \<and>
   create_gi_taxid_db dump50 ''gi_taxid.db'' ''gi_taxid_nucl.dmp'' 1 =
     create_gi_taxid_db dump50 ''gi_taxid.db'' ''gi_taxid_nucl.dmp'' 7 \<and>
   create_gi_taxid_db dump50 ''gi_taxid.db'' ''gi_taxid_nucl.dmp'' 7 =
     create_gi_taxid_db dump50 ''gi_taxid.db'' ''gi_taxid_nucl.dmp'' 200000"
proof -
  have gen: "gi_taxid_generator dump50 ''gi_taxid_nucl.dmp'' = map (\<lambda>i. Inr (i, 9600 + i)) [1..50]"
    by code_simp
  have wf: "\<forall>item\<in>set (gi_taxid_generator dump50 ''gi_taxid_nucl.dmp''). \<not> isl item"
    unfolding gen by simp
  have n: "(0::nat) < 1" "(0::nat) < 7" "(0::nat) < 200000" by simp_all
  from chunk_size_irrelevant[OF wf n(1) n(2)] chunk_size_irrelevant[OF wf n(2) n(3)] gen
  show ?thesis by simp
qed

text \<open>
  Claim C4. With \<open>path\<close> the resolved store path (\<open>gi_taxid.db\<close> when none is given):
  when no file exists at \<open>path\<close> and no dump-file path is given (\<open>None\<close> or the empty
  string), construction raises the exception whose message names the argument
  \<open>gi_taxid_dmp\<close>; when a file exists at \<open>path\<close>, construction returns the wrapper on the
  connection to that file, whatever the dump-file argument is.
\<close>

theorem init_store_or_dump:
  assumes path: "path = (case db_file of None \<Rightarrow> ''gi_taxid.db'' | Some p \<Rightarrow> p)"
  shows "(\<not> isfile fs path \<and> (gi_taxid_dmp = None \<or> gi_taxid_dmp = Some []) \<longrightarrow>
            Taxdump_DB_wrapper_init fs db_file gi_taxid_dmp rows_per_chunk =
              Inl (Exception ''Argument gi_taxid_dmp required to create new DB.'')) \<and>
         (isfile fs path \<longrightarrow>
            Taxdump_DB_wrapper_init fs db_file gi_taxid_dmp rows_per_chunk =
              Inr \<lparr>sqlite3db_file = path, con = sqlite3_connect fs path\<rparr>)"
  using path by (auto simp: Taxdump_DB_wrapper_init_def Let_def split: option.splits)

theorem init_store_or_dump_witness:
  "\<not> isfile Map.empty ''gi_taxid.db'' \<and>
   Taxdump_DB_wrapper_init Map.empty None None 200000 =
     Inl (Exception ''Argument gi_taxid_dmp required to create new DB.'') \<and>
   isfile [''proteo.db'' \<mapsto> Sqlite_file (Some [(12345, 9606)])] ''proteo.db'' \<and>
   Taxdump_DB_wrapper_init [''proteo.db'' \<mapsto> Sqlite_file (Some [(12345, 9606)])] (Some ''proteo.db'') None 200000 =
     Inr \<lparr>sqlite3db_file = ''proteo.db'', con = Database (Some [(12345, 9606)])\<rparr>"
proof -
  have p1: "''gi_taxid.db'' = (case None :: string option of None \<Rightarrow> ''gi_taxid.db'' | Some p \<Rightarrow> p)"
    by simp
  have p2: "''proteo.db'' = (case Some ''proteo.db'' of None \<Rightarrow> ''gi_taxid.db'' | Some p \<Rightarrow> p)"
    by simp
  have f1: "\<not> isfile Map.empty ''gi_taxid.db''" by (simp add: isfile_def)
  have f2: "isfile [''proteo.db'' \<mapsto> Sqlite_file (Some [(12345, 9606)])] ''proteo.db''"
    by (simp add: isfile_def)
  have c: "sqlite3_connect [''proteo.db'' \<mapsto> Sqlite_file (Some [(12345, 9606)])] ''proteo.db'' =
      Database (Some [(12345, 9606)])"
    by (simp add: sqlite3_connect_def)
  from init_store_or_dump[OF p1, of Map.empty None 200000]
    init_store_or_dump[OF p2, of "[''proteo.db'' \<mapsto> Sqlite_file (Some [(12345, 9606)])]" None 200000]
    f1 f2 c
  show ?thesis by simp
qed

subsection \<open>The resolver\<close>







lemma resolve_fallback:
  assumes "subscript (split_whitespace seqinfo0) 0 = Inr header"
    and "header_gi header = Inr gi"
    and "getitem gi_taxid gi = Inr None \<or> getitem gi_taxid gi = Inr (Some 0)"
    and "header_accno header = Inr accno"
  shows "resolve gi_taxid eutils seqinfo0 =
     (Log DEBUG (''Found no taxid mapping for gi: '' @ header @ '' in the taxdump db'')
        # Log DEBUG (''Requesting taxid for accno '' @ accno @ '' via Entrez E-utils'')
        # (case snd (efetch_taxid eutils accno) of
             Inl e \<Rightarrow> []
           | Inr None \<Rightarrow> [Log DEBUG (''Found in taxid for accno: '' @ accno)]
           | Inr (Some t) \<Rightarrow>
               if t \<noteq> 0 then [Yield (header, t)]
               else [Log DEBUG (''Found in taxid for accno: '' @ accno)]),
      case snd (efetch_taxid eutils accno) of Inl e \<Rightarrow> Some e | Inr r \<Rightarrow> None)"
proof -
  have f: "efetch_taxid eutils accno =
      ([Log DEBUG (''Requesting taxid for accno '' @ accno @ '' via Entrez E-utils'')],
       snd (efetch_taxid eutils accno))"
    by (simp add: efetch_taxid_def)
  show ?thesis
  proof (cases "snd (efetch_taxid eutils accno)")
    case (Inl e)
    with f have "efetch_taxid eutils accno =
      ([Log DEBUG (''Requesting taxid for accno '' @ accno @ '' via Entrez E-utils'')], Inl e)"
      by simp
    with assms Inl show ?thesis by (auto simp: resolve_def truthy_def)
  next
    case (Inr r)
    with f have "efetch_taxid eutils accno =
      ([Log DEBUG (''Requesting taxid for accno '' @ accno @ '' via Entrez E-utils'')], Inr r)"
      by simp
    with assms Inr show ?thesis by (cases r) (auto simp: resolve_def truthy_def)
  qed
qed

text \<open>
  Claim C10. For a record whose header gives the identifier \<open>gi\<close>: a stored taxid 0 is
  treated exactly as an absent mapping (the record is resolved as on a store without the
  gi), the request for the accession is made, and every pair the record then yields
  carries the taxid that \<open>efetch_taxid\<close> returned; a stored taxid other than 0 is yielded
  at once with the header and nothing else happens; and \<open>efetch_taxid\<close> returns \<open>None\<close>
  when the taxid read from the response is 0.
\<close>

theorem zero_taxid_as_absent:
  assumes header: "subscript (split_whitespace seqinfo0) 0 = Inr header"
    and gi: "header_gi header = Inr gi"
  shows "(getitem gi_taxid gi = Inr (Some 0) \<and> getitem other gi = Inr None \<longrightarrow>
            resolve gi_taxid eutils seqinfo0 = resolve other eutils seqinfo0) \<and>
         (getitem gi_taxid gi = Inr (Some 0) \<and> header_accno header = Inr accno \<longrightarrow>
            Log DEBUG (''Requesting taxid for accno '' @ accno @ '' via Entrez E-utils'')
              \<in> set (fst (resolve gi_taxid eutils seqinfo0))) \<and>
         (getitem gi_taxid gi = Inr (Some 0) \<longrightarrow>
            (\<forall>p\<in>set (yielded (fst (resolve gi_taxid eutils seqinfo0))).
               \<exists>a t. header_accno header = Inr a \<and> snd (efetch_taxid eutils a) = Inr (Some t) \<and>
                     p = (header, t))) \<and>
         (\<forall>taxid. getitem gi_taxid gi = Inr (Some taxid) \<and> taxid \<noteq> 0 \<longrightarrow>
            resolve gi_taxid eutils seqinfo0 = ([Yield (header, taxid)], None)) \<and>
         (\<forall>body. eutils accno' = Inr body \<and> response_taxid body = Inr 0 \<longrightarrow>
            snd (efetch_taxid eutils accno') = Inr None)"
proof -
  have a: "resolve gi_taxid eutils seqinfo0 = resolve other eutils seqinfo0"
    if "getitem gi_taxid gi = Inr (Some 0)" "getitem other gi = Inr None"
    using that header gi by (simp add: resolve_def truthy_def)
  have b: "Log DEBUG (''Requesting taxid for accno '' @ accno @ '' via Entrez E-utils'')
      \<in> set (fst (resolve gi_taxid eutils seqinfo0))"
    if "getitem gi_taxid gi = Inr (Some 0)" "header_accno header = Inr accno"
  proof -
    from that(1) have "getitem gi_taxid gi = Inr None \<or> getitem gi_taxid gi = Inr (Some 0)" by simp
    from resolve_fallback[OF header gi this that(2)] show ?thesis by simp
  qed
  have c: "\<exists>a t. header_accno header = Inr a \<and> snd (efetch_taxid eutils a) = Inr (Some t) \<and> p = (header, t)"
    if zero: "getitem gi_taxid gi = Inr (Some 0)"
      and p: "p \<in> set (yielded (fst (resolve gi_taxid eutils seqinfo0)))" for p
  proof (cases "header_accno header")
    case (Inl e)
    with zero header gi have "fst (resolve gi_taxid eutils seqinfo0) =
        [Log DEBUG (''Found no taxid mapping for gi: '' @ header @ '' in the taxdump db'')]"
      by (simp add: resolve_def truthy_def)
    with p show ?thesis by simp
  next
    case (Inr a)
    from zero have "getitem gi_taxid gi = Inr None \<or> getitem gi_taxid gi = Inr (Some 0)" by simp
    note r = resolve_fallback[OF header gi this Inr, of eutils]
    show ?thesis
    proof (cases "snd (efetch_taxid eutils a)")
      case (Inl e)
      with r p show ?thesis by simp
    next
      case fetched: (Inr v)
      show ?thesis
      proof (cases v)
        case None
        with r p fetched show ?thesis by simp
      next
        case (Some t)
        with r p fetched have "p = (header, t)" by (simp split: if_splits)
        with Inr fetched Some show ?thesis by simp
      qed
    qed
  qed
  have d: "resolve gi_taxid eutils seqinfo0 = ([Yield (header, taxid)], None)"
    if "getitem gi_taxid gi = Inr (Some taxid)" "taxid \<noteq> 0" for taxid
    using that header gi by (simp add: resolve_def truthy_def)
  have e: "snd (efetch_taxid eutils accno') = Inr None"
    if "eutils accno' = Inr body" "response_taxid body = Inr 0" for body
    using that by (simp add: efetch_taxid_def)
  from a b c d e show ?thesis by blast
qed

text \<open>
  A record with gi 5 on a store that maps 5 to 0, on a store without 5 and on a store
  that maps 5 to 511145.
\<close>

theorem zero_taxid_as_absent_witness:
  "getitem \<lparr>sqlite3db_file = ''gi_taxid.db'', con = Database (Some [(5, 0)])\<rparr> 5 = Inr (Some 0) \<and>
   getitem \<lparr>sqlite3db_file = ''gi_taxid.db'', con = Database (Some [])\<rparr> 5 = Inr None \<and>
   resolve \<lparr>sqlite3db_file = ''gi_taxid.db'', con = Database (Some [(5, 0)])\<rparr> ecoli_record
       ''gi|5|ref|NC_000913.3| Escherichia coli'' =
     resolve \<lparr>sqlite3db_file = ''gi_taxid.db'', con = Database (Some [])\<rparr> ecoli_record
       ''gi|5|ref|NC_000913.3| Escherichia coli'' \<and>
   Log DEBUG ''Requesting taxid for accno NC_000913.3 via Entrez E-utils''
     \<in> set (fst (resolve \<lparr>sqlite3db_file = ''gi_taxid.db'', con = Database (Some [(5, 0)])\<rparr> ecoli_record
                    ''gi|5|ref|NC_000913.3| Escherichia coli'')) \<and>
   yielded (fst (resolve \<lparr>sqlite3db_file = ''gi_taxid.db'', con = Database (Some [(5, 0)])\<rparr> ecoli_record
                    ''gi|5|ref|NC_000913.3| Escherichia coli'')) = [(''gi|5|ref|NC_000913.3|'', 562)] \<and>
   resolve \<lparr>sqlite3db_file = ''gi_taxid.db'', con = Database (Some [(5, 511145)])\<rparr> ecoli_record
       ''gi|5|ref|NC_000913.3| Escherichia coli'' = ([Yield (''gi|5|ref|NC_000913.3|'', 511145)], None) \<and>
   snd (efetch_taxid taxid0_record ''NC_000913.3'') = Inr None"
proof -
  let ?zero = "\<lparr>sqlite3db_file = ''gi_taxid.db'', con = Database (Some [(5, 0)])\<rparr>"
  let ?none = "\<lparr>sqlite3db_file = ''gi_taxid.db'', con = Database (Some [])\<rparr>"
  let ?some = "\<lparr>sqlite3db_file = ''gi_taxid.db'', con = Database (Some [(5, 511145)])\<rparr>"
  let ?s = "''gi|5|ref|NC_000913.3| Escherichia coli''"
  have header: "subscript (split_whitespace ?s) 0 = Inr ''gi|5|ref|NC_000913.3|''" by code_simp
  have gi: "header_gi ''gi|5|ref|NC_000913.3|'' = Inr 5" by code_simp
  have accno: "header_accno ''gi|5|ref|NC_000913.3|'' = Inr ''NC_000913.3''" by code_simp
  have z: "getitem ?zero 5 = Inr (Some 0)" by code_simp
  have n: "getitem ?none 5 = Inr None" by code_simp
  have s: "getitem ?some 5 = Inr (Some 511145)" by code_simp
  have r: "taxid0_record ''NC_000913.3'' = Inr ''<TSeq><TSeq_taxid>0</TSeq_taxid></TSeq>''"
    by (simp add: taxid0_record_def)
  have t: "response_taxid ''<TSeq><TSeq_taxid>0</TSeq_taxid></TSeq>'' = Inr 0" by code_simp
  have y: "yielded (fst (resolve ?zero ecoli_record ?s)) = [(''gi|5|ref|NC_000913.3|'', 562)]"
    by code_simp
  note zero = zero_taxid_as_absent[OF header gi, of ?zero ?none ecoli_record "''NC_000913.3''" "''NC_000913.3''"]
  note some = zero_taxid_as_absent[OF header gi, of ?some ?none ecoli_record "''NC_000913.3''" "''NC_000913.3''"]
  note fetch = zero_taxid_as_absent[OF header gi, of ?zero ?none taxid0_record "''NC_000913.3''" "''NC_000913.3''"]
  from zero z n have c1: "resolve ?zero ecoli_record ?s = resolve ?none ecoli_record ?s" by simp
  from zero z accno have c2: "Log DEBUG ''Requesting taxid for accno NC_000913.3 via Entrez E-utils''
      \<in> set (fst (resolve ?zero ecoli_record ?s))"
    by simp
  from some s have c4: "resolve ?some ecoli_record ?s = ([Yield (''gi|5|ref|NC_000913.3|'', 511145)], None)"
    by simp
  from fetch r t have c5: "snd (efetch_taxid taxid0_record ''NC_000913.3'') = Inr None" by simp
  show ?thesis by (intro conjI z n c1 c2 y c4 c5)
qed


subsection \<open>parse\_gff\<close>

text \<open>
  A line that does not split into nine tab-separated fields yields no record: it is
  logged, at level DEBUG when the line is exactly \<open>###\<close> and at level ERROR otherwise.
  The main loop does this for every line that is left, one after the other.
\<close>

lemma gff_line_malformed:
  assumes "length (split line [CHR 0x09]) \<noteq> 9"
  shows "gff_line filename line =
     (if line = ''###'' then [Log DEBUG (''Reached end of '' @ filename)]
      else [Log ERROR (''Couldn'' @ [CHR 0x27] @ ''t parse gff, the offending line was:''
                       @ [CHR 0x0A] @ line)])"
  using assms unfolding gff_line_def by (auto split: list.splits)

lemma gff_records_all_lines:
  "line \<noteq> [] \<Longrightarrow> [] \<notin> set f \<Longrightarrow>
     gff_records filename line f = concat (map (gff_line filename) (line # f))"
proof (induction f arbitrary: line)
  case Nil
  then show ?case by (simp add: readline_def)
next
  case (Cons l ls)
  from Cons.prems have "l \<noteq> []" "[] \<notin> set ls" by auto
  from Cons.IH[OF this] Cons.prems(1) show ?case by (simp add: readline_def)
qed

text \<open>
  Claim C7 on a file whose record is followed by the line \<open>###\<close> and a newline:
  \<open>readline\<close> returns the line with its newline, which is not equal to \<open>###\<close>, and the
  line is reported at level ERROR as an offending line.
\<close>

theorem parse_gff_closing_line:
  "parse_gff gff_disk ''genome.gff'' =
     ([Log DEBUG ''Parsing genome.gff...'',
       Yield (''NC_000913.3'', ''190'', ''255'', ''ID=gene0\<newline>''),
       Log ERROR (''Couldn'' @ [CHR 0x27] @ ''t parse gff, the offending line was:\<newline>###\<newline>'')],
      None)"
  by code_simp


subsection \<open>The taxonomy store\<close>

lemma execute_drop: "execute db (Drop_table_if_exists n) = Inr (db(n := None))"
  by (simp add: execute_def)

lemma execute_create:
  "execute db (Create_table n cols) =
     (if db n = None then Inr (db(n \<mapsto> \<lparr>columns = cols, rows = []\<rparr>))
      else Inl (OperationalError (''table '' @ n @ '' already exists'')))"
  by (simp add: execute_def split: option.splits)

lemma insert_version:
  "db ''version'' = Some \<lparr>columns = version_columns, rows = []\<rparr> \<Longrightarrow>
   execute db (Insert_into ''version'' [Text d, Text r, Text t, Text c]) =
     Inr (db(''version'' \<mapsto> \<lparr>columns = version_columns, rows = [[Text d, Text r, Text t, Text c]]\<rparr>))"
  by (simp add: execute_def version_columns_def bindable_def key_taken_def)


lemma expand_version:
  "fst (expand_taxonomy_db db d r t c) ''version'' =
     Some \<lparr>columns = version_columns, rows = [[Text d, Text r, Text t, Text c]]\<rparr>"
  by (simp add: expand_taxonomy_db_def execute_drop execute_create insert_version)









lemma insert_refseqs_other:
  "n \<noteq> ''refseqs'' \<Longrightarrow> fst (insert_refseqs_into_db db items) n = db n"
proof (induction db items rule: insert_refseqs_into_db.induct)
  case (1 db)
  then show ?case by simp
next
  case (2 db e refseqs)
  then show ?case by simp
next
  case (3 db header taxid refseqs)
  show ?case
  proof (cases "execute db (Insert_into ''refseqs'' [Text header, Integer taxid])")
    case (Inl e)
    then show ?thesis by simp
  next
    case (Inr db')
    then have "db' n = db n" using 3(2)
      by (auto simp: execute_def split: option.splits if_splits)
    with 3 Inr show ?thesis by simp
  qed
qed



text \<open>
  Claim C9. Whatever \<open>taxonomy_ver\<close>, \<open>refseq_ver\<close> and \<open>comment\<close> are given to
  \<open>prepare_db\<close>, the outcome is the same, and the \<open>version\<close> table of the store holds
  the one row of the creation date, \<open>2015-11-17\<close>, \<open>2015-11-17\<close> and \<open>second try\<close>, also
  when a later statement of \<open>prepare_db\<close> raises.
\<close>

theorem prepare_db_version_row:
  "prepare_db db creation_date fs refseqs gene_info annotations_dir globpattern_gff
     taxonomy_ver refseq_ver comment =
   prepare_db db creation_date fs refseqs gene_info annotations_dir globpattern_gff
     taxonomy_ver' refseq_ver' comment' \<and>
   map_option rows
     (fst (prepare_db db creation_date fs refseqs gene_info annotations_dir globpattern_gff
             taxonomy_ver refseq_ver comment) ''version'') =
     Some [[Text creation_date, Text ''2015-11-17'', Text ''2015-11-17'', Text ''second try'']]"
proof -
  let ?e = "expand_taxonomy_db db creation_date ''2015-11-17'' ''2015-11-17'' ''second try''"
  have v: "map_option rows (fst ?e ''version'') =
      Some [[Text creation_date, Text ''2015-11-17'', Text ''2015-11-17'', Text ''second try'']]"
    by (simp add: expand_version)
  have "fst (prepare_db db creation_date fs refseqs gene_info annotations_dir globpattern_gff
             taxonomy_ver refseq_ver comment) ''version'' = fst ?e ''version''"
    by (cases ?e) (auto simp: prepare_db_def insert_refseqs_other split: option.splits)
  with v show ?thesis by (simp add: prepare_db_def)
qed

text \<open>A call with version fields and a comment of its own.\<close>

theorem prepare_db_version_row_witness:
  "map_option rows
     (fst (prepare_db base_store ''2015-40-17'' mappings_disk ''header_taxid_mappings.tab''
             ''gene_info'' ''annotations'' ''*.gff'' ''2016-01-01'' ''release 74'' ''my comment'')
        ''version'') =
     Some [[Text ''2015-40-17'', Text ''2015-11-17'', Text ''2015-11-17'', Text ''second try'']]"
  by (rule prepare_db_version_row[THEN conjunct2])






end
